theory Spec2Isabelle
  imports Main "HOL-Library.Char_ord" "HOL-Library.List_Lexorder" "HOL-Library.Option_ord"
begin

section \<open>Python values used by the tool\<close>

text \<open>
  The exceptions the modelled code can raise by itself: a missing dictionary key, a failed
  \<^verbatim>\<open>str.index\<close> or \<^verbatim>\<open>list.remove\<close>, a list index out of range, an operation on
  \<^verbatim>\<open>None\<close> that needs a string, and a file that cannot be opened.
\<close>

datatype exn = KeyError | ValueError | IndexError | TypeError | IOError

text \<open>
  A string object is its characters together with its identity. The tool compares chapter
  numbers with \<^verbatim>\<open>==\<close> and \<^verbatim>\<open>in\<close> (by characters) and, in
  \<^verbatim>\<open>create_placeholders\<close>, with \<^verbatim>\<open>is\<close> (by identity), so the
  identity of chapter-number strings is kept. CPython 2 keeps one shared object for the
  empty string and for every one-character string (\<open>Shared\<close>); every longer string that
  the csv reader or the command line produces is an object of its own, named here by the
  pass over the file that made it, its row and its column (\<open>Fresh\<close>).
\<close>

datatype obj_id = Shared string | Fresh nat nat nat

record pystr =
  ident :: obj_id
  chars :: string

definition new_str :: "nat \<Rightarrow> nat \<Rightarrow> nat \<Rightarrow> string \<Rightarrow> pystr" where
  "new_str p i j s = \<lparr>ident = (if length s \<le> 1 then Shared s else Fresh p i j), chars = s\<rparr>"

definition empty_str :: pystr where
  "empty_str = \<lparr>ident = Shared '''', chars = ''''\<rparr>"

text \<open>
  A cell of the input file that is missing from its line is \<^verbatim>\<open>None\<close>, so the values the
  tool handles are strings or \<^verbatim>\<open>None\<close>: \<open>pystr option\<close> where the identity matters,
  \<open>string option\<close> elsewhere. \<open>val\<close> forgets the identity. \<^verbatim>\<open>None\<close> is one object, equal
  to itself only.
\<close>

definition val :: "pystr option \<Rightarrow> string option" where
  "val x = map_option chars x"

definition py_is :: "pystr option \<Rightarrow> pystr option \<Rightarrow> bool" where
  "py_is a b = (map_option ident a = map_option ident b)"

definition py_in :: "pystr option \<Rightarrow> pystr option list \<Rightarrow> bool" where
  "py_in x xs = (val x \<in> set (map val xs))"

text \<open>\<^verbatim>\<open>str(x)\<close> and the \<^verbatim>\<open>%s\<close> of string formatting.\<close>

definition py_str :: "string option \<Rightarrow> string" where
  "py_str x = (case x of None \<Rightarrow> ''None'' | Some s \<Rightarrow> s)"

text \<open>\<^verbatim>\<open>list.remove(x)\<close>: drops the first element that matches, \<open>None\<close> (ValueError) when
  there is none.\<close>

fun list_remove :: "('a \<Rightarrow> bool) \<Rightarrow> 'a list \<Rightarrow> 'a list option" where
  "list_remove eq [] = None"
| "list_remove eq (y # ys) = (if eq y then Some ys else map_option ((#) y) (list_remove eq ys))"

subsection \<open>String operations\<close>

definition is_digit :: "char \<Rightarrow> bool" where
  "is_digit c = (c \<in> set ''0123456789'')"

text \<open>\<^verbatim>\<open>regex.match('[0-9]', s)\<close>: the string starts with a digit.\<close>

definition match_digit :: "string \<Rightarrow> bool" where
  "match_digit s = (case s of [] \<Rightarrow> False | c # _ \<Rightarrow> is_digit c)"

fun find_char :: "char \<Rightarrow> string \<Rightarrow> nat option" where
  "find_char c [] = None"
| "find_char c (x # xs) = (if x = c then Some 0 else map_option Suc (find_char c xs))"

text \<open>\<^verbatim>\<open>str.index(s, c)\<close> raises ValueError when \<open>c\<close> does not occur.\<close>

definition str_index :: "string \<Rightarrow> char \<Rightarrow> exn + nat" where
  "str_index s c = (case find_char c s of None \<Rightarrow> Inl ValueError | Some i \<Rightarrow> Inr i)"

fun rfind_char :: "char \<Rightarrow> string \<Rightarrow> nat option" where
  "rfind_char c [] = None"
| "rfind_char c (x # xs) =
     (case rfind_char c xs of Some i \<Rightarrow> Some (Suc i)
      | None \<Rightarrow> (if x = c then Some 0 else None))"

fun find_sub :: "string \<Rightarrow> string \<Rightarrow> nat option" where
  "find_sub sub [] = (if sub = [] then Some 0 else None)"
| "find_sub sub (x # xs) =
     (if take (length sub) (x # xs) = sub then Some 0 else map_option Suc (find_sub sub xs))"

definition endswith :: "string \<Rightarrow> string \<Rightarrow> bool" where
  "endswith s suf = (length suf \<le> length s \<and> drop (length s - length suf) s = suf)"

text \<open>\<^verbatim>\<open>s[a:b]\<close> for \<open>0 \<le> a\<close> and \<open>0 \<le> b\<close>; empty when \<open>b \<le> a\<close>.\<close>

definition slice :: "nat \<Rightarrow> nat \<Rightarrow> string \<Rightarrow> string" where
  "slice a b s = take (b - a) (drop a s)"


definition lower_char :: "char \<Rightarrow> char" where
  "lower_char c =
     (case map_of (zip ''ABCDEFGHIJKLMNOPQRSTUVWXYZ'' ''abcdefghijklmnopqrstuvwxyz'') c of
        None \<Rightarrow> c | Some d \<Rightarrow> d)"

definition lower :: "string \<Rightarrow> string" where
  "lower s = map lower_char s"

section \<open>The bookmap (lib/bookmap.py)\<close>

subsection \<open>BookmapConfiguration\<close>

record BookmapConfiguration =
  chapter_number_column :: string
  chapter_title_column :: string
  module_title_column :: string
  source_module_ID_column :: string
  source_workgroup_column :: string
  destination_module_ID_column :: string
  destination_workgroup_column :: string
  unit_number_column :: string
  unit_title_column :: string
  cfg_strip_section_numbers :: bool

text \<open>The constructor takes the nine column names and the section-number setting.\<close>

type_synonym column = string

definition BookmapConfiguration_init ::
  "column \<Rightarrow> column \<Rightarrow> column \<Rightarrow> column \<Rightarrow> column \<Rightarrow> column \<Rightarrow> column \<Rightarrow> column
     \<Rightarrow> column \<Rightarrow> string \<Rightarrow> BookmapConfiguration" where
  "BookmapConfiguration_init cn ct mt sid swg did dwg un ut strip =
     \<lparr>chapter_number_column = cn, chapter_title_column = ct, module_title_column = mt,
      source_module_ID_column = sid, source_workgroup_column = swg,
      destination_module_ID_column = did, destination_workgroup_column = dwg,
      unit_number_column = un, unit_title_column = ut,
      cfg_strip_section_numbers = (lower strip \<in> set [''yes'', ''true''])\<rparr>"

subsection \<open>CNXModule\<close>

text \<open>
  The title is a string (the one place that makes modules passes a string). Every other
  field is a string or \<^verbatim>\<open>None\<close>: the section number because \<^verbatim>\<open>full_title\<close> tests for
  it, the fields read from the file because a cell can be missing from its line. Only the
  chapter number keeps its identity: it is the one field the tool compares with
  \<^verbatim>\<open>is\<close>.
\<close>

record CNXModule =
  title :: string
  section_number :: "string option"
  source_workspace_url :: "string option"
  source_id :: "string option"
  destination_workspace_url :: "string option"
  destination_id :: "string option"
  chapter_title :: "string option"
  chapter_number :: "pystr option"
  unit_number :: "string option"
  unit_title :: "string option"
  valid :: bool

definition CNXModule_init :: "string \<Rightarrow> string option \<Rightarrow> CNXModule" where
  "CNXModule_init t sn =
     \<lparr>title = t, section_number = sn, source_workspace_url = Some '''', source_id = Some '''',
      destination_workspace_url = Some '''', destination_id = Some '''',
      chapter_title = Some '''', chapter_number = Some empty_str, unit_number = Some '''',
      unit_title = Some '''', valid = True\<rparr>"

definition full_title :: "CNXModule \<Rightarrow> string" where
  "full_title m =
     (case section_number m of
        None \<Rightarrow> title m
      | Some sn \<Rightarrow> (if sn \<noteq> '''' \<and> sn \<noteq> '' '' then sn @ '' '' @ title m else title m))"

text \<open>What the specification says \<^verbatim>\<open>full_title\<close> is: the prefix and the title when the
  section number is non-empty, the title alone otherwise.\<close>

definition full_title_spec :: "CNXModule \<Rightarrow> string" where
  "full_title_spec m =
     (case section_number m of
        None \<Rightarrow> title m
      | Some sn \<Rightarrow> (if sn \<noteq> '''' then sn @ '' '' @ title m else title m))"

subsection \<open>Workgroup\<close>

text \<open>The member modules are references to the module objects of the bookmap: positions
  in its module list, which never loses or reorders its elements.\<close>

record Workgroup =
  wg_title :: string
  wg_chapter_title :: string
  wg_id :: string
  wg_url :: string
  wg_modules :: "nat list"
  wg_chapter_number :: "pystr option"
  wg_unit_number :: "string option"

definition Workgroup_init :: "string \<Rightarrow> pystr option \<Rightarrow> string \<Rightarrow> Workgroup" where
  "Workgroup_init t cn ct =
     \<lparr>wg_title = t, wg_chapter_title = ct, wg_id = '''', wg_url = '''', wg_modules = [],
      wg_chapter_number = cn, wg_unit_number = Some ''''\<rparr>"

subsection \<open>Section numbers\<close>

definition strip_section_numbers :: "string \<Rightarrow> exn + (string \<times> string)" where
  "strip_section_numbers t =
     (if match_digit t then
        (case str_index t CHR '' '' of
           Inl e \<Rightarrow> Inl e
         | Inr i \<Rightarrow> Inr (take i t, drop (i + 1) t))
      else Inr ('''', t))"

subsection \<open>Rows of the input file\<close>

text \<open>
  The file is a table of cells, its first line the header; the layer of \<^verbatim>\<open>csv.reader\<close>
  and \<^verbatim>\<open>csv.writer\<close> between the characters of the file and that table is not modelled.
  A row as \<^verbatim>\<open>csv.DictReader\<close> yields it is a dictionary: under each column name of the
  header the cell of that column (the last one, when the header repeats a name), or
  \<^verbatim>\<open>None\<close> when the line is shorter than the header; and, when the line is longer
  than the header, under the key \<^verbatim>\<open>None\<close> the list of the cells beyond it (\<open>restkey\<close>).
  Lines without cells are skipped. Every pass over the file makes new string objects.
\<close>

record row =
  cells :: "string \<rightharpoonup> pystr option"
  restkey :: "pystr list option"

definition dict_zip :: "string list \<Rightarrow> 'a list \<Rightarrow> (string \<rightharpoonup> 'a)" where
  "dict_zip ks vs = map_of (rev (zip ks vs))"

definition DictReader_row :: "string list \<Rightarrow> pystr list \<Rightarrow> row" where
  "DictReader_row header vs =
     \<lparr>cells = dict_zip header (map Some vs @ replicate (length header - length vs) None),
      restkey = (if length header < length vs then Some (drop (length header) vs) else None)\<rparr>"

definition DictReader :: "nat \<Rightarrow> string list list \<Rightarrow> row list" where
  "DictReader p file =
     (case file of
        [] \<Rightarrow> []
      | header # rows \<Rightarrow>
          map (\<lambda>(i, r). DictReader_row header (map (\<lambda>(j, c). new_str p i j c) (enumerate 0 r)))
            (filter (\<lambda>(i, r). r \<noteq> []) (enumerate 0 rows)))"

subsection \<open>Run options\<close>

text \<open>The run options object of the command line. An include or exclude list that was
  not given (\<^verbatim>\<open>None\<close>) is the empty list: the code only tests their truth value.\<close>

record RunOptions =
  ro_modules :: bool
  ro_workgroups :: bool
  ro_copy :: bool
  ro_roles :: bool
  ro_accept_roles :: bool
  ro_collections :: bool
  ro_units :: bool
  ro_publish :: bool
  ro_publish_collection :: bool
  ro_chapters :: "pystr option list"
  ro_exclude :: "pystr option list"
  ro_dryrun :: bool

subsection \<open>Bookmap and BookmapData\<close>

text \<open>
  \<open>wg_heap\<close> holds the Workgroup objects that \<^verbatim>\<open>convert\<close> creates; a reference to
  one is its position there. \<open>workgroups\<close> is the Python list of these references, the one
  that \<^verbatim>\<open>create_placeholders\<close> removes from.
\<close>

record BookmapData =
  modules :: "CNXModule list"
  workgroups :: "nat list"
  wg_heap :: "Workgroup list"

text \<open>\<open>chapters\<close> is one list object shared with the run options
  (\<^verbatim>\<open>run_options.chapters = self.chapters\<close>): after construction the tool reads and
  changes it under both names.\<close>

record Bookmap =
  filename :: string
  config :: BookmapConfiguration
  booktitle :: string
  delimiter :: char
  chapters :: "pystr option list"
  bm_workgroups :: bool
  bookmap_raw :: "row list"
  bookmap :: BookmapData

definition parse_book_title :: "string \<Rightarrow> string" where
  "parse_book_title fp =
     (let a = (case rfind_char CHR ''/'' fp of None \<Rightarrow> 0 | Some i \<Rightarrow> i + 1) in
      if endswith fp ''.csv'' then
        (case find_sub ''.csv'' fp of Some b \<Rightarrow> slice a b fp | None \<Rightarrow> slice a (length fp - 1) fp)
      else if endswith fp ''.tsv'' then
        (case find_sub ''.tsv'' fp of Some b \<Rightarrow> slice a b fp | None \<Rightarrow> slice a (length fp - 1) fp)
      else drop a fp)"

text \<open>\<^verbatim>\<open>entry[column]\<close> raises KeyError when the header has no such column; for a
  line too short to reach the column it is \<^verbatim>\<open>None\<close>, which is collected like a string.\<close>

fun get_chapters_loop ::
  "string \<Rightarrow> row list \<Rightarrow> pystr option list \<Rightarrow> exn + pystr option list" where
  "get_chapters_loop col [] chs = Inr chs"
| "get_chapters_loop col (entry # rest) chs =
     (case cells entry col of
        None \<Rightarrow> Inl KeyError
      | Some v \<Rightarrow> get_chapters_loop col rest (if py_in v chs then chs else chs @ [v]))"

definition get_chapters :: "BookmapConfiguration \<Rightarrow> row list \<Rightarrow> exn + pystr option list" where
  "get_chapters cfg reader = get_chapters_loop (chapter_number_column cfg) reader []"

text \<open>The chapter resolution of \<^verbatim>\<open>Bookmap.__init__\<close>; \<open>reader\<close> is the pass over the
  file that \<^verbatim>\<open>get_chapters\<close> makes.\<close>

definition resolve_chapters ::
  "BookmapConfiguration \<Rightarrow> RunOptions \<Rightarrow> row list \<Rightarrow> exn + pystr option list" where
  "resolve_chapters cfg ro reader =
     (case (if ro_chapters ro = [] then get_chapters cfg reader else Inr (ro_chapters ro)) of
        Inl e \<Rightarrow> Inl e
      | Inr chs \<Rightarrow>
          Inr (if ro_exclude ro \<noteq> [] then filter (\<lambda>c. \<not> py_in c (ro_exclude ro)) chs else chs))"

text \<open>\<^verbatim>\<open>exec expression\<close> under \<^verbatim>\<open>except KeyError\<close>: the field is assigned when the
  row has the column (\<^verbatim>\<open>None\<close> for a line too short to reach it) and left as it is
  otherwise.\<close>

definition safe_process_column ::
  "row \<Rightarrow> string \<Rightarrow> (pystr option \<Rightarrow> CNXModule \<Rightarrow> CNXModule) \<Rightarrow> CNXModule \<Rightarrow> CNXModule" where
  "safe_process_column r col assign m =
     (case cells r col of None \<Rightarrow> m | Some v \<Rightarrow> assign v m)"

text \<open>The body of the loop of \<^verbatim>\<open>convert\<close>. The title cell is read unguarded: KeyError
  without the column, and TypeError when the cell is \<^verbatim>\<open>None\<close>, which
  \<^verbatim>\<open>regex.match\<close> in \<^verbatim>\<open>strip_section_numbers\<close> does not take.\<close>

definition convert_row :: "BookmapConfiguration \<Rightarrow> row \<Rightarrow> exn + CNXModule" where
  "convert_row cfg r =
     (case cells r (module_title_column cfg) of
        None \<Rightarrow> Inl KeyError
      | Some None \<Rightarrow> Inl TypeError
      | Some (Some t) \<Rightarrow>
          (case strip_section_numbers (chars t) of
             Inl e \<Rightarrow> Inl e
           | Inr (num, ttl) \<Rightarrow>
               (let m = CNXModule_init ttl (Some num);
                    m = safe_process_column r (source_module_ID_column cfg)
                          (\<lambda>v m. m\<lparr>source_id := val v\<rparr>) m;
                    m = safe_process_column r (source_workgroup_column cfg)
                          (\<lambda>v m. m\<lparr>source_workspace_url := val v\<rparr>) m;
                    m = safe_process_column r (destination_module_ID_column cfg)
                          (\<lambda>v m. m\<lparr>destination_id := val v\<rparr>) m;
                    m = safe_process_column r (destination_workgroup_column cfg)
                          (\<lambda>v m. m\<lparr>destination_workspace_url := val v\<rparr>) m;
                    m = safe_process_column r (chapter_number_column cfg)
                          (\<lambda>v m. m\<lparr>chapter_number := v\<rparr>) m;
                    m = safe_process_column r (chapter_title_column cfg)
                          (\<lambda>v m. m\<lparr>chapter_title := val v\<rparr>) m;
                    m = safe_process_column r (unit_number_column cfg)
                          (\<lambda>v m. m\<lparr>unit_number := val v\<rparr>) m;
                    m = safe_process_column r (unit_title_column cfg)
                          (\<lambda>v m. m\<lparr>unit_title := val v\<rparr>) m
                in Inr m)))"

fun convert_rows :: "BookmapConfiguration \<Rightarrow> row list \<Rightarrow> exn + CNXModule list" where
  "convert_rows cfg [] = Inr []"
| "convert_rows cfg (r # rs) =
     (case convert_row cfg r of
        Inl e \<Rightarrow> Inl e
      | Inr m \<Rightarrow> (case convert_rows cfg rs of Inl e \<Rightarrow> Inl e | Inr ms \<Rightarrow> Inr (m # ms)))"

text \<open>The chapter number of a row is compared with \<^verbatim>\<open>str(chapter_num)\<close>, which \<^verbatim>\<open>None\<close>
  never equals. In the row that matches, a chapter title that is \<^verbatim>\<open>None\<close> cannot be
  appended to a string: TypeError.\<close>

fun get_chapter_number_and_title ::
  "BookmapConfiguration \<Rightarrow> row list \<Rightarrow> string option \<Rightarrow> exn + string" where
  "get_chapter_number_and_title cfg [] chapter_num = Inr '' ''"
| "get_chapter_number_and_title cfg (r # rest) chapter_num =
     (case cells r (chapter_number_column cfg) of
        None \<Rightarrow> Inl KeyError
      | Some v \<Rightarrow>
          (if val v = Some (py_str chapter_num) then
             (case cells r (chapter_title_column cfg) of
                None \<Rightarrow> Inl KeyError
              | Some None \<Rightarrow> Inl TypeError
              | Some (Some t) \<Rightarrow> Inr (py_str (val v) @ '' '' @ chars t))
           else get_chapter_number_and_title cfg rest chapter_num))"

text \<open>\<^verbatim>\<open>s.split(' ', 1)[1]\<close>: what follows the first space; IndexError without one.\<close>

definition split1_second :: "string \<Rightarrow> exn + string" where
  "split1_second s =
     (case find_char CHR '' '' s of None \<Rightarrow> Inl IndexError | Some i \<Rightarrow> Inr (drop (i + 1) s))"

fun convert_workgroups ::
  "BookmapConfiguration \<Rightarrow> row list \<Rightarrow> string \<Rightarrow> pystr option list \<Rightarrow> exn + Workgroup list" where
  "convert_workgroups cfg raw bt [] = Inr []"
| "convert_workgroups cfg raw bt (chapter # rest) =
     (case get_chapter_number_and_title cfg raw (val chapter) of
        Inl e \<Rightarrow> Inl e
      | Inr cnt \<Rightarrow>
          (case split1_second cnt of
             Inl e \<Rightarrow> Inl e
           | Inr ct \<Rightarrow>
               (case convert_workgroups cfg raw bt rest of
                  Inl e \<Rightarrow> Inl e
                | Inr ws \<Rightarrow> Inr (Workgroup_init (bt @ '' - '' @ cnt) chapter ct # ws))))"

text \<open>The modules are converted first, whatever the section-number setting of the
  configuration says: \<^verbatim>\<open>self.strip_section_numbers\<close> is the method of the bookmap.\<close>

definition convert ::
  "BookmapConfiguration \<Rightarrow> string \<Rightarrow> bool \<Rightarrow> pystr option list \<Rightarrow> row list \<Rightarrow> row list
     \<Rightarrow> exn + BookmapData" where
  "convert cfg bt use_wg chs raw reader =
     (case convert_rows cfg reader of
        Inl e \<Rightarrow> Inl e
      | Inr ms \<Rightarrow>
          (if use_wg then
             (case convert_workgroups cfg raw bt chs of
                Inl e \<Rightarrow> Inl e
              | Inr ws \<Rightarrow> Inr \<lparr>modules = ms, workgroups = [0..<length ws], wg_heap = ws\<rparr>)
           else Inr \<lparr>modules = ms, workgroups = [], wg_heap = []\<rparr>))"

text \<open>
  \<^verbatim>\<open>Bookmap.__init__\<close> on a file with the given cells. The run options are returned
  too: the resolved chapters are written into them before the file is converted, so they
  stay written when the conversion raises.
\<close>

definition Bookmap_init ::
  "string \<Rightarrow> BookmapConfiguration \<Rightarrow> RunOptions \<Rightarrow> string list list
     \<Rightarrow> (exn + Bookmap) \<times> RunOptions" where
  "Bookmap_init fname cfg ro file =
     (case resolve_chapters cfg ro (DictReader 0 file) of
        Inl e \<Rightarrow> (Inl e, ro)
      | Inr chs \<Rightarrow>
          (let ro' = ro\<lparr>ro_chapters := chs\<rparr>;
               bt = parse_book_title fname;
               raw = DictReader 1 file
           in case convert cfg bt (ro_workgroups ro') chs raw (DictReader 2 file) of
                Inl e \<Rightarrow> (Inl e, ro')
              | Inr d \<Rightarrow>
                  (Inr \<lparr>filename = fname, config = cfg, booktitle = bt,
                        delimiter = (if endswith fname ''.tsv'' then CHR 0x09 else CHR '',''),
                        chapters = chs, bm_workgroups = ro_workgroups ro',
                        bookmap_raw = raw, bookmap = d\<rparr>, ro')))"

subsection \<open>Saving the bookmap\<close>






section \<open>The orchestrator (content-copy.py)\<close>

subsection \<open>The content service\<close>

text \<open>
  The content creator of \<^verbatim>\<open>lib/operation_objects.py\<close> talks to the destination server
  and is not part of the sources at hand, so it is a parameter: for every operation a
  function that says, from the remote calls made so far and the arguments of this call,
  whether the call raises (a \<^verbatim>\<open>CCTError\<close> or any other exception; the tool handles both
  alike, up to logging) or what it hands back. A created workgroup gets its identifier
  and URL, a created module its destination identifier and workspace URL, a created
  collection its identifier. Modules and workgroups are not changed in any other way.
\<close>

datatype failure = CCTError | OtherError

text \<open>A collection of \<^verbatim>\<open>lib/bookmap.py\<close> (its member list, which only the content
  creator fills, is left out), and \<^verbatim>\<open>Collection.get_parents\<close>.\<close>

datatype Collection =
  Collection (coll_title: string) (coll_id: string) (coll_parent: "Collection option")

fun get_parents :: "Collection \<Rightarrow> Collection list" where
  "get_parents (Collection t i None) = []"
| "get_parents (Collection t i (Some p)) = p # get_parents p"

text \<open>
  The remote calls, in the order they are issued. Workgroups and modules are named by
  reference. \<open>AddSubcollections\<close> says for whom the subcollection is made: \<open>None\<close> for a
  unit, \<open>Some w\<close> for the chapter of workgroup \<open>w\<close>. \<open>AddModulesToCollection\<close> names the
  workgroup whose member list is passed, the members at that time and the collection
  they are attached to.
\<close>

datatype call =
    RunCreateWorkgroup nat bool
  | RunCreateAndPublishModule nat string bool
  | CreateCollection string
  | AddSubcollections "nat option" "string list" Collection
  | AddModulesToCollection nat "nat list" Collection
  | PublishCollection Collection
  | PublishModule string

record ContentCreator =
  run_create_workgroup :: "call list \<Rightarrow> Workgroup \<Rightarrow> bool \<Rightarrow> failure + (string \<times> string)"
  run_create_and_publish_module ::
    "call list \<Rightarrow> CNXModule \<Rightarrow> string \<Rightarrow> bool \<Rightarrow> failure + (string \<times> string)"
  create_collection :: "call list \<Rightarrow> string \<Rightarrow> failure + string"
  add_subcollections :: "call list \<Rightarrow> string list \<Rightarrow> Collection \<Rightarrow> failure + string list"
  add_modules_to_collection ::
    "call list \<Rightarrow> CNXModule list \<Rightarrow> Collection \<Rightarrow> failure option \<times> (string \<times> string) list"
  publish_collection :: "call list \<Rightarrow> Collection \<Rightarrow> failure option"
  publish_module :: "call list \<Rightarrow> string \<Rightarrow> failure option"

subsection \<open>The state of a run\<close>

text \<open>The bookmap, the shared list of failure records and the remote calls made.\<close>

record run_state =
  bm :: Bookmap
  failures :: "(string \<times> string) list"
  trace :: "call list"

definition set_modules :: "CNXModule list \<Rightarrow> run_state \<Rightarrow> run_state" where
  "set_modules ms s = s\<lparr>bm := (bm s)\<lparr>bookmap := (bookmap (bm s))\<lparr>modules := ms\<rparr>\<rparr>\<rparr>"

definition set_workgroups :: "nat list \<Rightarrow> run_state \<Rightarrow> run_state" where
  "set_workgroups ws s = s\<lparr>bm := (bm s)\<lparr>bookmap := (bookmap (bm s))\<lparr>workgroups := ws\<rparr>\<rparr>\<rparr>"

definition set_wg_heap :: "Workgroup list \<Rightarrow> run_state \<Rightarrow> run_state" where
  "set_wg_heap h s = s\<lparr>bm := (bm s)\<lparr>bookmap := (bookmap (bm s))\<lparr>wg_heap := h\<rparr>\<rparr>\<rparr>"

definition set_chapters :: "pystr option list \<Rightarrow> run_state \<Rightarrow> run_state" where
  "set_chapters cs s = s\<lparr>bm := (bm s)\<lparr>chapters := cs\<rparr>\<rparr>"

definition add_failures :: "(string \<times> string) list \<Rightarrow> run_state \<Rightarrow> run_state" where
  "add_failures fs s = s\<lparr>failures := failures s @ fs\<rparr>"

definition log_call :: "call \<Rightarrow> run_state \<Rightarrow> run_state" where
  "log_call c s = s\<lparr>trace := trace s @ [c]\<rparr>"

subsection \<open>create_placeholders\<close>

text \<open>The loop that invalidates the modules of a failed workgroup: it compares the chapter
  numbers with \<^verbatim>\<open>is\<close>. It returns the modules and the failure records it appends.\<close>

fun invalidate_modules ::
  "pystr option \<Rightarrow> CNXModule list \<Rightarrow> CNXModule list \<times> (string \<times> string) list" where
  "invalidate_modules cn [] = ([], [])"
| "invalidate_modules cn (m # ms) =
     (case invalidate_modules cn ms of
        (ms', fs) \<Rightarrow>
          (if py_is (chapter_number m) cn
           then (m\<lparr>valid := False\<rparr> # ms', (full_title m, '' creating placeholder'') # fs)
           else (m # ms', fs)))"

text \<open>
  The body of the workgroup loop for the workgroup \<open>w\<close>; \<open>d\<close> is the dictionary
  \<^verbatim>\<open>chapter_to_workgroup\<close>. A \<^verbatim>\<open>remove\<close> that finds nothing raises ValueError inside
  the handler, which leaves the function.
\<close>

definition create_workgroup_step ::
  "ContentCreator \<Rightarrow> RunOptions \<Rightarrow> nat \<Rightarrow> (string option \<rightharpoonup> nat) \<Rightarrow> run_state
     \<Rightarrow> exn option \<times> (string option \<rightharpoonup> nat) \<times> run_state" where
  "create_workgroup_step cc ro w d s =
     (let wg = wg_heap (bookmap (bm s)) ! w;
          s1 = log_call (RunCreateWorkgroup w (ro_dryrun ro)) s
      in case run_create_workgroup cc (trace s) wg (ro_dryrun ro) of
           Inr (i, u) \<Rightarrow>
             (None, d(val (wg_chapter_number wg) \<mapsto> w),
              set_wg_heap ((wg_heap (bookmap (bm s1)))[w := wg\<lparr>wg_id := i, wg_url := u\<rparr>]) s1)
         | Inl e \<Rightarrow>
             (case list_remove (\<lambda>c. val c = val (wg_chapter_number wg)) (chapters (bm s1)) of
                None \<Rightarrow> (Some ValueError, d, s1)
              | Some cs \<Rightarrow>
                  (let s2 = set_chapters cs s1 in
                   case list_remove (\<lambda>r. r = w) (workgroups (bookmap (bm s2))) of
                     None \<Rightarrow> (Some ValueError, d, s2)
                   | Some ws \<Rightarrow>
                       (let s3 = set_workgroups ws s2 in
                        case invalidate_modules (wg_chapter_number wg) (modules (bookmap (bm s3))) of
                          (ms, fs) \<Rightarrow>
                            (None, d(val (wg_chapter_number wg) \<mapsto> w),
                             add_failures fs (set_modules ms s3))))))"

text \<open>
  \<^verbatim>\<open>for workgroup in bookmap.bookmap.workgroups\<close>: the iterator keeps a position \<open>i\<close> in
  the list and stops when the position reaches the length the list has then. The body
  removes from that very list.
\<close>

function create_workgroups_loop ::
  "ContentCreator \<Rightarrow> RunOptions \<Rightarrow> nat \<Rightarrow> (string option \<rightharpoonup> nat) \<Rightarrow> run_state
     \<Rightarrow> exn option \<times> (string option \<rightharpoonup> nat) \<times> run_state" where
  "create_workgroups_loop cc ro i d s =
     (if i < length (workgroups (bookmap (bm s))) then
        (case create_workgroup_step cc ro (workgroups (bookmap (bm s)) ! i) d s of
           (Some e, d', s') \<Rightarrow> (Some e, d', s')
         | (None, d', s') \<Rightarrow> create_workgroups_loop cc ro (Suc i) d' s')
      else (None, d, s))"
  by pat_completeness auto
termination
  apply (relation "measure (\<lambda>(cc, ro, i, d, s). length (workgroups (bookmap (bm s))) - i)")
   apply simp
  apply (auto simp: create_workgroup_step_def Let_def set_modules_def set_workgroups_def
      set_wg_heap_def set_chapters_def add_failures_def log_call_def
      split: sum.splits option.splits prod.splits)
  subgoal for cc ro i s x1 x2 x2a x1a x2b
  proof -
    assume lt: "i < length (workgroups (bookmap (bm s)))"
      and r: "list_remove (\<lambda>r. r = workgroups (bookmap (bm s)) ! i)
                (workgroups (bookmap (bm s))) = Some x2a"
    have "length ys \<le> length xs" if "list_remove eq xs = Some ys"
      for eq :: "nat \<Rightarrow> bool" and xs ys
      using that by (induction xs arbitrary: ys) (auto split: if_splits)
    from this [OF r] lt show ?thesis by arith
  qed
  done

declare create_workgroups_loop.simps [simp del]

text \<open>
  The body of the module loop for the module \<open>i\<close>. With workgroups enabled the workgroup
  is looked up in the dictionary before the \<^verbatim>\<open>try\<close>: a chapter without an entry raises
  KeyError, which leaves the function.
\<close>

definition create_module_step ::
  "ContentCreator \<Rightarrow> RunOptions \<Rightarrow> (string option \<rightharpoonup> nat) \<Rightarrow> nat \<Rightarrow> run_state
     \<Rightarrow> exn option \<times> run_state" where
  "create_module_step cc ro d i s =
     (let m = modules (bookmap (bm s)) ! i in
      if valid m \<and> py_in (chapter_number m) (chapters (bm s)) then
        (case (if ro_workgroups ro
               then (case d (val (chapter_number m)) of
                       None \<Rightarrow> Inl KeyError
                     | Some w \<Rightarrow> Inr (Some w))
               else Inr None) of
           Inl e \<Rightarrow> (Some e, s)
         | Inr wo \<Rightarrow>
             (let workgroup_url =
                    (case wo of None \<Rightarrow> ''Members/''
                     | Some w \<Rightarrow> wg_url (wg_heap (bookmap (bm s)) ! w));
                  s1 = log_call (RunCreateAndPublishModule i workgroup_url (ro_dryrun ro)) s
              in case run_create_and_publish_module cc (trace s) m workgroup_url (ro_dryrun ro) of
                   Inr (did, dws) \<Rightarrow>
                     (let s2 = set_modules
                                 ((modules (bookmap (bm s1)))
                                    [i := m\<lparr>destination_id := Some did,
                                            destination_workspace_url := Some dws\<rparr>]) s1
                      in case wo of
                           None \<Rightarrow> (None, s2)
                         | Some w \<Rightarrow>
                             (let wg = wg_heap (bookmap (bm s2)) ! w in
                              (None,
                               set_wg_heap
                                 ((wg_heap (bookmap (bm s2)))
                                    [w := wg\<lparr>wg_modules := wg_modules wg @ [i],
                                             wg_unit_number := unit_number m\<rparr>]) s2)))
                 | Inl e \<Rightarrow>
                     (None,
                      add_failures [(full_title m, '' creating placeholder'')]
                        (set_modules ((modules (bookmap (bm s1)))[i := m\<lparr>valid := False\<rparr>]) s1))))
      else (None, s))"

fun create_modules_loop ::
  "ContentCreator \<Rightarrow> RunOptions \<Rightarrow> (string option \<rightharpoonup> nat) \<Rightarrow> nat list \<Rightarrow> run_state
     \<Rightarrow> exn option \<times> run_state" where
  "create_modules_loop cc ro d [] s = (None, s)"
| "create_modules_loop cc ro d (i # rest) s =
     (case create_module_step cc ro d i s of
        (Some e, s') \<Rightarrow> (Some e, s')
      | (None, s') \<Rightarrow> create_modules_loop cc ro d rest s')"

text \<open>The result says whether an exception left the function; the state is the one the
  function leaves behind in either case.\<close>

definition create_placeholders ::
  "ContentCreator \<Rightarrow> RunOptions \<Rightarrow> run_state \<Rightarrow> exn option \<times> run_state" where
  "create_placeholders cc ro s =
     (case (if ro_workgroups ro then create_workgroups_loop cc ro 0 Map.empty s
            else (None, Map.empty, s)) of
        (Some e, d, s') \<Rightarrow> (Some e, s')
      | (None, d, s') \<Rightarrow>
          create_modules_loop cc ro d [0..<length (modules (bookmap (bm s')))] s')"

subsection \<open>publish_modules_post_copy\<close>



subsection \<open>create_populate_and_publish_collection\<close>










section \<open>Example inputs\<close>

text \<open>A configuration with the usual column names and section-number stripping switched
  off, run options that ask for workgroups and modules, and the state a run starts in.\<close>

definition ex_config :: BookmapConfiguration where
  "ex_config = BookmapConfiguration_init ''Chapter'' ''Chapter Title'' ''Module Title''
     ''Source ID'' ''Source Workgroup'' ''Destination ID'' ''Destination Workgroup''
     ''Unit'' ''Unit Title'' ''no''"

definition ex_options :: RunOptions where
  "ex_options = \<lparr>ro_modules = True, ro_workgroups = True, ro_copy = False, ro_roles = False,
     ro_accept_roles = False, ro_collections = True, ro_units = True, ro_publish = False,
     ro_publish_collection = False, ro_chapters = [], ro_exclude = [], ro_dryrun = False\<rparr>"

definition start_state :: "Bookmap \<Rightarrow> run_state" where
  "start_state b = \<lparr>bm = b, failures = [], trace = []\<rparr>"

text \<open>A server that refuses the first call made to it and accepts every later one, a
  server that accepts every call, and a server that refuses to create modules.\<close>

definition first_call_fails :: ContentCreator where
  "first_call_fails =
     \<lparr>run_create_workgroup =
        (\<lambda>h wg dry. if h = [] then Inl CCTError else Inr (''wg'', ''Members/wg'')),
      run_create_and_publish_module = (\<lambda>h m url dry. Inr (''m'', url)),
      create_collection = (\<lambda>h t. Inr ''col''),
      add_subcollections = (\<lambda>h ts p. Inr (map (\<lambda>t. ''sub'') ts)),
      add_modules_to_collection = (\<lambda>h ms p. (None, [])),
      publish_collection = (\<lambda>h c. None),
      publish_module = (\<lambda>h u. None)\<rparr>"



definition two_chapters_file :: "string list list" where
  "two_chapters_file =
     [[''Chapter'', ''Chapter Title'', ''Module Title''],
      [''1'', ''One'', ''1.1 Intro''],
      [''2'', ''Two'', ''2.1 Next'']]"

definition chapter_ten_file :: "string list list" where
  "chapter_ten_file =
     [[''Chapter'', ''Chapter Title'', ''Module Title''],
      [''10'', ''Ten'', ''10.1 Intro'']]"

definition no_chapter_column_file :: "string list list" where
  "no_chapter_column_file =
     [[''Module Title'', ''Source ID''],
      [''Intro'', ''m100'']]"


section \<open>Notions the properties are stated with\<close>

subsection \<open>The unit number of a workgroup\<close>



subsection \<open>The valid flag\<close>



section \<open>Properties\<close>

subsection \<open>Section numbers and titles\<close>

lemma find_char_None: "find_char c s = None \<longleftrightarrow> c \<notin> set s"
  by (induction s) auto

lemma find_char_Some:
  "find_char c s = Some i \<Longrightarrow> i < length s \<and> s ! i = c \<and> c \<notin> set (take i s)"
  by (induction s arbitrary: i) (auto split: if_splits simp: nth_Cons')

lemma find_char_append: "c \<notin> set s \<Longrightarrow> find_char c (s @ c # t) = Some (length s)"
  by (induction s) auto

text \<open>Where the title has a space, or does not start with a digit,
  \<^verbatim>\<open>strip_section_numbers\<close> does what the specification says.\<close>

lemma strip_section_numbers_digit:
  assumes "match_digit t" and "find_char CHR '' '' t = Some i"
  shows "strip_section_numbers t = Inr (take i t, drop (Suc i) t)"
  using assms by (simp add: strip_section_numbers_def str_index_def)

lemma strip_section_numbers_no_digit:
  "\<not> match_digit t \<Longrightarrow> strip_section_numbers t = Inr ('''', t)"
  by (simp add: strip_section_numbers_def)

lemma strip_section_numbers_raises:
  "strip_section_numbers t = Inl e \<longleftrightarrow> e = ValueError \<and> match_digit t \<and> CHR '' '' \<notin> set t"
  by (auto simp: strip_section_numbers_def str_index_def find_char_None [symmetric]
      split: option.splits)

text \<open>
  C6 (the code departs from the claim). A title that starts with a digit and has no space,
  such as \<open>2019\<close>, makes \<^verbatim>\<open>strip_section_numbers\<close> raise ValueError
  (\<^verbatim>\<open>str.index\<close> finds no space): the function does not return a section number and a
  title for every input string.
\<close>

theorem C6_strip_section_numbers_raises_without_space:
  "strip_section_numbers ''2019'' = Inl ValueError"
  by code_simp

text \<open>
  C5 (the code departs from the claim). With the setting \<open>no\<close> the configuration holds
  \<open>False\<close>, and the parser still splits the title \<open>3.2 Forces and Motion\<close> into the section
  number \<open>3.2\<close> and the title \<open>Forces and Motion\<close>: \<^verbatim>\<open>convert\<close> never reads the setting.
\<close>

theorem C5_stripping_ignores_setting:
  "cfg_strip_section_numbers ex_config = False \<and>
   map_sum id (\<lambda>m. (section_number m, title m))
     (convert_row ex_config
        \<lparr>cells = [''Module Title'' \<mapsto> Some (new_str 0 0 0 ''3.2 Forces and Motion'')],
         restkey = None\<rparr>)
   = Inr (Some ''3.2'', ''Forces and Motion'')"
  by code_simp

text \<open>The setting has no influence on any row.\<close>

lemma convert_row_ignores_setting:
  "convert_row (cfg\<lparr>cfg_strip_section_numbers := b\<rparr>) r = convert_row cfg r"
  by (simp add: convert_row_def Let_def split: option.splits sum.splits prod.splits)

text \<open>The section number that \<^verbatim>\<open>strip_section_numbers\<close> returns is empty, or it starts
  with a digit and has no space. So is the section number of every module that
  \<^verbatim>\<open>convert\<close> makes; nothing in the tool assigns a section number later.\<close>

lemma strip_section_numbers_number:
  assumes "strip_section_numbers t = Inr (num, ttl)"
  shows "num = '''' \<or> (match_digit num \<and> CHR '' '' \<notin> set num)"
proof (cases "match_digit t")
  case False
  with assms show ?thesis by (simp add: strip_section_numbers_def)
next
  case True
  with assms obtain i where i: "find_char CHR '' '' t = Some i" and num: "num = take i t"
    by (auto simp: strip_section_numbers_def str_index_def split: option.splits)
  from find_char_Some [OF i] have "CHR '' '' \<notin> set (take i t)" by simp
  moreover have "take i t = [] \<or> match_digit (take i t)"
    using True by (cases t; cases i) (auto simp: match_digit_def)
  ultimately show ?thesis using num by auto
qed

lemma convert_row_section_number:
  assumes "convert_row cfg r = Inr m"
  shows "\<exists>num. section_number m = Some num \<and>
           (num = '''' \<or> (match_digit num \<and> CHR '' '' \<notin> set num))"
proof -
  from assms obtain t num ttl where "strip_section_numbers t = Inr (num, ttl)"
    and "section_number m = Some num"
    by (auto simp: convert_row_def safe_process_column_def CNXModule_init_def Let_def
        split: option.splits sum.splits prod.splits)
  with strip_section_numbers_number show ?thesis by blast
qed

text \<open>
  C7. For every module that the parser makes from a row, \<^verbatim>\<open>full_title\<close> is the section
  number, a space and the title when the section number is not empty, and the title alone
  otherwise. (The method sets a section number that is a single space aside as well; the
  parser makes no such module.)
\<close>

theorem C7_full_title:
  assumes "convert_row cfg r = Inr m"
  shows "full_title m = full_title_spec m"
proof -
  from convert_row_section_number [OF assms] obtain num
    where "section_number m = Some num" and "num = '''' \<or> match_digit num" by blast
  then show ?thesis
    by (auto simp: full_title_def full_title_spec_def match_digit_def is_digit_def)
qed

text \<open>C7, witness: the row with the title cell \<open>3.2 Forces and Motion\<close>.\<close>

theorem C7_full_title_witness:
  "convert_row ex_config
     \<lparr>cells = [''Module Title'' \<mapsto> Some (new_str 0 0 0 ''3.2 Forces and Motion'')],
      restkey = None\<rparr>
     = Inr (CNXModule_init ''Forces and Motion'' (Some ''3.2'')) \<and>
   full_title (CNXModule_init ''Forces and Motion'' (Some ''3.2''))
     = full_title_spec (CNXModule_init ''Forces and Motion'' (Some ''3.2'')) \<and>
   full_title_spec (CNXModule_init ''Forces and Motion'' (Some ''3.2''))
     = ''3.2 Forces and Motion''"
proof -
  have h: "convert_row ex_config
     \<lparr>cells = [''Module Title'' \<mapsto> Some (new_str 0 0 0 ''3.2 Forces and Motion'')],
      restkey = None\<rparr>
     = Inr (CNXModule_init ''Forces and Motion'' (Some ''3.2''))"
    by code_simp
  have "full_title_spec (CNXModule_init ''Forces and Motion'' (Some ''3.2''))
          = ''3.2 Forces and Motion''"
    by (simp add: full_title_spec_def CNXModule_init_def)
  with h C7_full_title [OF h] show ?thesis by simp
qed

subsection \<open>Chapter resolution\<close>

text \<open>
  C3 (the code departs from the claim). The chapter-number column is optional
  (\<^verbatim>\<open>convert\<close> reads it under \<^verbatim>\<open>safe_process_column\<close>), but with no include list
  \<^verbatim>\<open>get_chapters\<close> reads it unguarded: for a file without that column the construction
  of the bookmap raises KeyError and no chapter set is computed.
\<close>

theorem C3_missing_chapter_column_raises:
  "ro_chapters ex_options = [] \<and>
   resolve_chapters ex_config ex_options (DictReader 0 no_chapter_column_file) = Inl KeyError \<and>
   (case fst (Bookmap_init ''Book.csv'' ex_config ex_options no_chapter_column_file) of
      Inl e \<Rightarrow> e = KeyError
    | Inr b \<Rightarrow> False)"
  by code_simp

subsection \<open>Placeholder creation\<close>

text \<open>
  C1 (the code departs from the claim). The file has the chapters 1 and 2, so the bookmap
  starts with the workgroups 0 and 1. The server refuses the first workgroup; the handler
  removes it from the list the loop is iterating over, the second workgroup moves to the
  position the iterator has already passed, and the loop ends: the only remote call is
  the one for workgroup 0. The module of chapter 2 then finds no workgroup in the
  dictionary and the function is left by a KeyError.
\<close>

theorem C1_workgroup_after_failure_skipped:
  "case fst (Bookmap_init ''Book.csv'' ex_config ex_options two_chapters_file) of
     Inl e \<Rightarrow> False
   | Inr b \<Rightarrow>
       workgroups (bookmap b) = [0, 1] \<and>
       trace (snd (create_placeholders first_call_fails ex_options (start_state b)))
         = [RunCreateWorkgroup 0 False] \<and>
       fst (create_placeholders first_call_fails ex_options (start_state b)) = Some KeyError"
  by code_simp

text \<open>
  C2 (the code departs from the claim). The file has one module in chapter 10 and the
  server refuses the workgroup of that chapter. The chapter and the workgroup are removed,
  but the module stays valid and no failure is recorded: the invalidation loop compares
  the chapter numbers with \<^verbatim>\<open>is\<close>, and the string \<open>10\<close> of the module and the string
  \<open>10\<close> of the workgroup are two objects.
\<close>

theorem C2_chapter_ten_not_invalidated:
  "case fst (Bookmap_init ''Book.csv'' ex_config ex_options chapter_ten_file) of
     Inl e \<Rightarrow> False
   | Inr b \<Rightarrow>
       (case create_placeholders first_call_fails ex_options (start_state b) of
          (r, s) \<Rightarrow>
            r = None \<and>
            trace s = [RunCreateWorkgroup 0 False] \<and>
            map (\<lambda>m. (val (chapter_number m), valid m)) (modules (bookmap (bm s)))
              = [(Some ''10'', True)] \<and>
            failures s = [] \<and> chapters (bm s) = [] \<and> workgroups (bookmap (bm s)) = [])"
  by code_simp

subsection \<open>The unit number of a workgroup\<close>















subsection \<open>The valid flag\<close>






















lemma convert_row_valid: "convert_row cfg r = Inr m \<Longrightarrow> valid m"
  by (auto simp: convert_row_def safe_process_column_def CNXModule_init_def Let_def
      split: option.splits sum.splits prod.splits)




end
